theory Spec2Isabelle
  imports Complex_Main "HOL-Library.Word"
begin

section \<open>The WaitForConfirmation event of rmf\_task\_sequence\<close>

text \<open>
  A shallow embedding of the two implementations of the \<^verbatim>\<open>WaitForConfirmation\<close> event:
  \<^item> the one with confirmation messaging (the source file whose \<^verbatim>\<open>Model\<close> owns a ROS 2
    publisher and subscription, a task UUID, the confirmation flag and the time of the
    last request);
  \<^item> \<^verbatim>\<open>WaitForConfirmation.cpp\<close>, the variant with no messaging, whose \<^verbatim>\<open>Model\<close> always
    extends the wait. Its definitions carry the prefix \<open>basic_\<close>.

  Conventions of the embedding.
  \<^item> \<^verbatim>\<open>rmf_traffic::Time\<close> and \<^verbatim>\<open>rmf_traffic::Duration\<close> are signed 64-bit counts of
    nanoseconds; they are modelled as \<open>64 word\<close>. Sums and differences wrap around, as the
    compiled two's-complement arithmetic does (signed overflow is undefined in C++), and the
    comparisons are the signed ones (\<open><s\<close>, \<open>\<le>s\<close>); \<open>sint\<close> reads a word as the signed count.
  \<^item> \<^verbatim>\<open>double\<close> is modelled as a type \<open>'d\<close> of which only a subtraction, a zero and the two
    comparisons \<open><\<close> and \<open>\<le>\<close> are used, and about which nothing is assumed. The code
    subtracts one drain and compares; every general theorem below speaks of the difference
    and the comparisons as computed in \<open>'d\<close>, so it holds for IEEE arithmetic with its
    rounding and its NaN as it does for the reals.
  \<^item> \<^verbatim>\<open>std::optional<T>::value()\<close> throws \<^verbatim>\<open>std::bad_optional_access\<close> on an empty optional;
    a call that throws returns \<open>Inl bad_optional_access\<close>. A call that returns
    \<^verbatim>\<open>std::nullopt\<close> returns \<open>Inr None\<close>, one that returns an estimate \<open>Inr (Some e)\<close>.
  \<^item> The \<^verbatim>\<open>mutable\<close> members written by the \<^verbatim>\<open>const\<close> member functions are passed explicitly:
    a function that may write them returns the model after the call.
  \<^item> \<^verbatim>\<open>std::chrono::steady_clock::now()\<close> is an input: every read of the clock is an argument
    of the function that reads it.
  \<^item> The random UUID drawn by \<^verbatim>\<open>generate_uuid\<close> is an input of the constructor.
  \<^item> \<^verbatim>\<open>rmf_traffic::time::to_seconds\<close>, which is not among the sources, is an input of the
    constructors: the function from a duration to its count of seconds as a \<^verbatim>\<open>double\<close>.
\<close>

subsection \<open>Types of the surrounding library\<close>

type_synonym time = "64 word"
type_synonym duration = "64 word"

text \<open>
  Modelled from the spec: the declaration of \<^verbatim>\<open>rmf_task::State\<close> is not among the sources.
  The state carries a time and a battery state of charge, both optional (unset means not
  tracked); these are the two components the event reads and writes.
\<close>

record 'd state =
  time :: "time option"
  battery_soc :: "'d option"

text \<open>
  Modelled from the spec: the declaration of \<^verbatim>\<open>rmf_task::Constraints\<close> is not among the
  sources. The event reads \<open>threshold_soc\<close> and \<open>drain_battery\<close>. The spec gives the threshold
  the range from 0 to 1; no theorem below depends on it.
\<close>

record 'd constraints =
  threshold_soc :: 'd
  drain_battery :: bool

text \<open>
  Modelled from the spec: the declaration of \<^verbatim>\<open>rmf_task::Estimate\<close> is not among the sources.
  An estimate pairs a resulting state with a finish time, in the order of the constructor's
  arguments.
\<close>

record 'd estimate =
  finish_state :: "'d state"
  wait_until :: time

text \<open>
  Modelled from the spec: the declaration of \<^verbatim>\<open>rmf_task::Parameters\<close> is not among the
  sources. \<open>ambient_sink\<close> is the optional ambient power system, given by its
  \<^verbatim>\<open>compute_change_in_charge\<close> (from a duration in seconds to a change in charge).
\<close>

record 'd parameters =
  ambient_sink :: "('d \<Rightarrow> 'd) option"

datatype error = bad_optional_access

subsection \<open>Description\<close>

text \<open>
  \<^verbatim>\<open>WaitForConfirmation::Description::Implementation\<close>; a description holds exactly one. The
  getters are the record's selectors; a setter returns the description after the update.
\<close>

record description =
  initial_wait_duration :: duration
  timeout_duration :: duration

text \<open>
  \<^verbatim>\<open>Description::make\<close> (and the constructor it calls). The record package reserves the name
  \<open>make\<close>, hence \<open>make_description\<close>.
\<close>

definition make_description :: "duration \<Rightarrow> duration \<Rightarrow> description" where
  "make_description initial_wait_duration' timeout_duration' =
     \<lparr>initial_wait_duration = initial_wait_duration', timeout_duration = timeout_duration'\<rparr>"

definition set_initial_wait_duration :: "description \<Rightarrow> duration \<Rightarrow> description" where
  "set_initial_wait_duration d new_initial_wait_duration =
     d\<lparr>initial_wait_duration := new_initial_wait_duration\<rparr>"

definition set_timeout_duration :: "description \<Rightarrow> duration \<Rightarrow> description" where
  "set_timeout_duration d new_timeout_duration = d\<lparr>timeout_duration := new_timeout_duration\<rparr>"

text \<open>
  Modelled from the spec: the declaration of \<^verbatim>\<open>Header\<close> is not among the sources. A header is
  a title, a detail and an expected duration, in the order of the constructor's arguments.
\<close>

record header =
  title :: string
  detail :: string
  expected_duration :: duration

definition generate_header :: "description \<Rightarrow> 'd state \<Rightarrow> 'd parameters \<Rightarrow> header" where
  "generate_header d st ps =
     \<lparr>title = ''Waiting for Confirmation'',
      detail = ''Waiting until confirmation is received or timeout occurs'',
      expected_duration = initial_wait_duration d\<rparr>"

definition basic_generate_header :: "description \<Rightarrow> 'd state \<Rightarrow> 'd parameters \<Rightarrow> header" where
  "basic_generate_header d st ps =
     \<lparr>title = ''Waiting'',
      detail = ''Waiting for confirmation'',
      expected_duration = initial_wait_duration d\<rparr>"

subsection \<open>The battery steps shared by every branch of \<^verbatim>\<open>estimate_finish\<close>\<close>

text \<open>
  The block \<^verbatim>\<open>if (constraints.drain_battery()) { ... }\<close> occurs three times in the sources with
  the same text (twice in the messaging variant, once in the basic one). It reads the battery
  only when the flag is set; it returns \<^verbatim>\<open>std::nullopt\<close> (\<open>Inr None\<close>) when the drained
  charge, as computed by the subtraction of \<open>'d\<close>, is below zero, and otherwise goes on with
  the drained charge stored in the state (\<open>Inr (Some state')\<close>).
\<close>

definition update_battery_drain ::
  "'d::{minus,zero,ord} \<Rightarrow> 'd constraints \<Rightarrow> 'd state \<Rightarrow> error + 'd state option" where
  "update_battery_drain invariant_battery_drain cons st =
     (if drain_battery cons then
        (case battery_soc st of
           None \<Rightarrow> Inl bad_optional_access
         | Some soc \<Rightarrow>
             (let new_battery_soc = soc - invariant_battery_drain in
              if new_battery_soc < 0 then Inr None
              else Inr (Some (st\<lparr>battery_soc := Some new_battery_soc\<rparr>))))
      else Inr (Some st))"

text \<open>
  The test \<^verbatim>\<open>state.battery_soc().value() <= constraints.threshold_soc()\<close> that follows the block,
  outside the \<^verbatim>\<open>drain_battery\<close> guard.
\<close>

definition below_threshold :: "'d::ord constraints \<Rightarrow> 'd state \<Rightarrow> error + bool" where
  "below_threshold cons st =
     (case battery_soc st of
        None \<Rightarrow> Inl bad_optional_access
      | Some soc \<Rightarrow> Inr (soc \<le> threshold_soc cons))"

subsection \<open>The model without messaging (\<^verbatim>\<open>WaitForConfirmation.cpp\<close>)\<close>

record 'd basic_model =
  m_invariant_finish_state :: "'d state"
  m_invariant_battery_drain :: 'd
  m_initial_wait_duration :: duration
  m_timeout_duration :: duration

text \<open>
  The constructor. \<open>to_seconds\<close> is \<^verbatim>\<open>rmf_traffic::time::to_seconds\<close>. The test
  \<^verbatim>\<open>_initial_wait_duration.count() < 0\<close> is a signed one.
\<close>

definition basic_Model ::
  "(duration \<Rightarrow> 'd) \<Rightarrow> 'd state \<Rightarrow> duration \<Rightarrow> duration \<Rightarrow> 'd parameters
     \<Rightarrow> 'd::zero basic_model" where
  "basic_Model to_seconds invariant_initial_state initial_wait_duration' timeout_duration' ps =
     \<lparr>m_invariant_finish_state = invariant_initial_state,
      m_invariant_battery_drain =
        (case ambient_sink ps of
           Some compute_change_in_charge \<Rightarrow>
             compute_change_in_charge
               (to_seconds (if initial_wait_duration' <s 0 then 0 else initial_wait_duration'))
         | None \<Rightarrow> 0),
      m_initial_wait_duration = initial_wait_duration',
      m_timeout_duration = timeout_duration'\<rparr>"

definition basic_make_model ::
  "(duration \<Rightarrow> 'd) \<Rightarrow> description \<Rightarrow> 'd state \<Rightarrow> 'd parameters \<Rightarrow> 'd::zero basic_model" where
  "basic_make_model to_seconds d invariant_initial_state ps =
     basic_Model to_seconds invariant_initial_state
       (initial_wait_duration d) (timeout_duration d) ps"

definition basic_estimate_finish ::
  "'d::{minus,zero,ord} basic_model \<Rightarrow> 'd state \<Rightarrow> time \<Rightarrow> 'd constraints
     \<Rightarrow> error + 'd estimate option" where
  "basic_estimate_finish m st earliest_arrival_time cons =
     (case time st of
        None \<Rightarrow> Inl bad_optional_access
      | Some t \<Rightarrow>
          (let st1 = st\<lparr>time := Some (t + m_initial_wait_duration m)\<rparr> in
           case update_battery_drain (m_invariant_battery_drain m) cons st1 of
             Inl e \<Rightarrow> Inl e
           | Inr None \<Rightarrow> Inr None
           | Inr (Some st2) \<Rightarrow>
               (case below_threshold cons st2 of
                  Inl e \<Rightarrow> Inl e
                | Inr True \<Rightarrow> Inr None
                | Inr False \<Rightarrow>
                    Inr (Some \<lparr>finish_state = st2, wait_until = earliest_arrival_time\<rparr>))))"

definition basic_invariant_duration :: "'d basic_model \<Rightarrow> duration" where
  "basic_invariant_duration m = m_initial_wait_duration m"

definition basic_invariant_finish_state :: "'d basic_model \<Rightarrow> 'd state" where
  "basic_invariant_finish_state m = m_invariant_finish_state m"

subsection \<open>The model with confirmation messaging\<close>

text \<open>
  \<open>m_published\<close> is the log of the messages the model has published on
  \<^verbatim>\<open>/request_confirmation\<close>, oldest first.
\<close>

record 'd model = "'d basic_model" +
  m_confirmation_received :: bool
  m_confirmation_request_time :: time
  m_task_uuid :: string
  m_published :: "string list"

definition request_confirmation :: "time \<Rightarrow> 'd model \<Rightarrow> 'd model" where
  \<comment> \<open>\<open>now\<close> is the clock read when the request is recorded.\<close>
  "request_confirmation now m =
     m\<lparr>m_published := m_published m @ [m_task_uuid m], m_confirmation_request_time := now\<rparr>"

definition on_confirmation_received :: "'d model \<Rightarrow> string \<Rightarrow> 'd model" where
  "on_confirmation_received m msg =
     (if msg = m_task_uuid m then m\<lparr>m_confirmation_received := True\<rparr> else m)"

text \<open>
  The constructor. \<open>to_seconds\<close> is \<^verbatim>\<open>rmf_traffic::time::to_seconds\<close>, \<open>uuid\<close> is the value
  \<^verbatim>\<open>generate_uuid()\<close> draws and \<open>now\<close> the clock read by the first \<^verbatim>\<open>request_confirmation()\<close>.
  The member \<^verbatim>\<open>_confirmation_request_time\<close> is default-constructed (the clock's epoch) before
  that request overwrites it.
\<close>

definition Model ::
  "(duration \<Rightarrow> 'd) \<Rightarrow> 'd state \<Rightarrow> duration \<Rightarrow> duration \<Rightarrow> 'd parameters \<Rightarrow> string \<Rightarrow> time
     \<Rightarrow> 'd::zero model" where
  "Model to_seconds invariant_initial_state initial_wait_duration' timeout_duration' ps uuid now =
     request_confirmation now
       \<lparr>m_invariant_finish_state = invariant_initial_state,
        m_invariant_battery_drain =
          (case ambient_sink ps of
             Some compute_change_in_charge \<Rightarrow>
               compute_change_in_charge
                 (to_seconds (if initial_wait_duration' <s 0 then 0 else initial_wait_duration'))
           | None \<Rightarrow> 0),
        m_initial_wait_duration = initial_wait_duration',
        m_timeout_duration = timeout_duration',
        m_confirmation_received = False,
        m_confirmation_request_time = 0,
        m_task_uuid = uuid,
        m_published = []\<rparr>"

definition make_model ::
  "(duration \<Rightarrow> 'd) \<Rightarrow> description \<Rightarrow> 'd state \<Rightarrow> 'd parameters \<Rightarrow> string \<Rightarrow> time
     \<Rightarrow> 'd::zero model" where
  "make_model to_seconds d invariant_initial_state ps uuid now =
     Model to_seconds invariant_initial_state
       (initial_wait_duration d) (timeout_duration d) ps uuid now"

text \<open>
  \<open>current_time\<close> is the clock read at the head of the function, \<open>request_time\<close> the one read
  by \<^verbatim>\<open>request_confirmation()\<close> when the wait is extended. The travel estimator is not used by
  the source and is left out. The result is the returned value (or the exception) and the
  model after the call. The elapsed time is a 64-bit difference and the timeout test a signed
  comparison; the new time of the state is a 64-bit sum.
\<close>

definition estimate_finish ::
  "'d::{minus,zero,ord} model \<Rightarrow> time \<Rightarrow> time \<Rightarrow> 'd state \<Rightarrow> time \<Rightarrow> 'd constraints
     \<Rightarrow> (error + 'd estimate option) \<times> 'd model" where
  "estimate_finish m current_time request_time st earliest_arrival_time cons =
     (let elapsed_time = current_time - m_confirmation_request_time m in
      if \<not> m_confirmation_received m then
        (if m_timeout_duration m <s elapsed_time then (Inr None, m)
         else
           (case time st of
              None \<Rightarrow> (Inl bad_optional_access, m)
            | Some t \<Rightarrow>
                (let st1 = st\<lparr>time := Some (t + m_initial_wait_duration m)\<rparr>;
                     m1 = request_confirmation request_time m
                 in case update_battery_drain (m_invariant_battery_drain m) cons st1 of
                      Inl e \<Rightarrow> (Inl e, m1)
                    | Inr None \<Rightarrow> (Inr None, m1)
                    | Inr (Some st2) \<Rightarrow>
                        (case below_threshold cons st2 of
                           Inl e \<Rightarrow> (Inl e, m1)
                         | Inr True \<Rightarrow> (Inr None, m1)
                         | Inr False \<Rightarrow>
                             (Inr (Some \<lparr>finish_state = st2,
                                         wait_until = earliest_arrival_time\<rparr>), m1)))))
      else
        (case update_battery_drain (m_invariant_battery_drain m) cons st of
           Inl e \<Rightarrow> (Inl e, m)
         | Inr None \<Rightarrow> (Inr None, m)
         | Inr (Some st2) \<Rightarrow>
             (case below_threshold cons st2 of
                Inl e \<Rightarrow> (Inl e, m)
              | Inr True \<Rightarrow> (Inr None, m)
              | Inr False \<Rightarrow>
                  (case time st2 of
                     None \<Rightarrow> (Inl bad_optional_access, m)
                   | Some t \<Rightarrow> (Inr (Some \<lparr>finish_state = st2, wait_until = t\<rparr>), m)))))"

definition invariant_duration :: "'d model \<Rightarrow> duration" where
  "invariant_duration m = (if m_confirmation_received m then 0 else m_initial_wait_duration m)"

definition invariant_finish_state :: "'d model \<Rightarrow> 'd state" where
  "invariant_finish_state m = m_invariant_finish_state m"

subsection \<open>Operations on live models\<close>

text \<open>
  What can happen to a model once it is constructed: the scheduler calls one of the three
  public member functions, or the subscription delivers a message to
  \<^verbatim>\<open>on_confirmation_received\<close>. \<open>apply_call\<close> gives the model after one of them.
\<close>

datatype 'd call =
  Estimate_finish time time "'d state" time "'d constraints"
| Invariant_duration
| Invariant_finish_state
| Confirmation string

fun apply_call :: "'d::{minus,zero,ord} model \<Rightarrow> 'd call \<Rightarrow> 'd model" where
  "apply_call m (Estimate_finish current_time request_time st earliest_arrival_time cons) =
     snd (estimate_finish m current_time request_time st earliest_arrival_time cons)"
| "apply_call m Invariant_duration = m"
| "apply_call m Invariant_finish_state = m"
| "apply_call m (Confirmation msg) = on_confirmation_received m msg"

definition apply_calls :: "'d::{minus,zero,ord} model \<Rightarrow> 'd call list \<Rightarrow> 'd model" where
  "apply_calls m cs = foldl apply_call m cs"

text \<open>
  Every model subscribes to the same topic \<^verbatim>\<open>/confirmation_received\<close>, so one message on it
  reaches the callback of every live model.
\<close>

definition deliver :: "string \<Rightarrow> 'd model list \<Rightarrow> 'd model list" where
  "deliver msg ms = map (\<lambda>m. on_confirmation_received m msg) ms"

subsection \<open>Concrete inputs of the closed theorems\<close>

text \<open>
  The concrete inputs take the reals for \<open>'d\<close>. Every charge, threshold and drain among them
  is a dyadic fraction with a short numerator, and so is every difference the calls compute,
  so the arithmetic of \<^verbatim>\<open>double\<close> on these inputs is exact and agrees with that of the reals.

  \<open>seconds n\<close> is the duration of \<open>n\<close> seconds in nanoseconds. \<open>to_seconds_exact\<close> is the
  count of seconds of a duration; on the whole seconds used below it is a small integer.
\<close>

definition seconds :: "64 word \<Rightarrow> duration" where
  "seconds n = n * 1000000000"

definition to_seconds_exact :: "duration \<Rightarrow> real" where
  "to_seconds_exact d = real_of_int (sint d) / 1000000000"

text \<open>
  A state at time 0 with half of the charge; a model made from it with an initial wait of
  5 s and a timeout of 20 s, constructed when the clock reads 0, once with no ambient power
  system (drain 0) and once with one that takes an eighth of the charge per second (drain
  5/8 for one wait); constraints with a threshold of 1/8, without and with battery drain.
\<close>

definition example_state :: "real state" where
  "example_state = \<lparr>time = Some 0, battery_soc = Some (1 / 2)\<rparr>"

definition example_model :: "real model" where
  "example_model =
     Model to_seconds_exact example_state (seconds 5) (seconds 20) \<lparr>ambient_sink = None\<rparr>
       ''task-a'' 0"

definition draining_model :: "real model" where
  "draining_model =
     Model to_seconds_exact example_state (seconds 5) (seconds 20)
       \<lparr>ambient_sink = Some (\<lambda>s. s / 8)\<rparr> ''task-a'' 0"

definition no_drain :: "real constraints" where
  "no_drain = \<lparr>threshold_soc = 1 / 8, drain_battery = False\<rparr>"

definition with_drain :: "real constraints" where
  "with_drain = \<lparr>threshold_soc = 1 / 8, drain_battery = True\<rparr>"

text \<open>
  A second live model with another UUID, the first model after its confirmation has arrived,
  the model without messaging made from the same description, a model made from a
  description with a negative wait (-5 s), and one made from a description with a negative
  timeout (-1 s), both with the draining power system.
\<close>

definition other_model :: "real model" where
  "other_model =
     Model to_seconds_exact example_state (seconds 5) (seconds 20) \<lparr>ambient_sink = None\<rparr>
       ''task-b'' 0"

definition confirmed_model :: "real model" where
  "confirmed_model = on_confirmation_received example_model ''task-a''"

definition basic_example_model :: "real basic_model" where
  "basic_example_model =
     basic_Model to_seconds_exact example_state (seconds 5) (seconds 20)
       \<lparr>ambient_sink = None\<rparr>"

definition negative_wait_model :: "real model" where
  "negative_wait_model =
     make_model to_seconds_exact (make_description (- seconds 5) (seconds 20)) example_state
       \<lparr>ambient_sink = Some (\<lambda>s. s / 8)\<rparr> ''task-a'' 0"

definition negative_timeout_model :: "real model" where
  "negative_timeout_model =
     make_model to_seconds_exact (make_description (seconds 5) (- seconds 1)) example_state
       \<lparr>ambient_sink = Some (\<lambda>s. s / 8)\<rparr> ''task-a'' 0"

section \<open>Properties\<close>

subsection \<open>What each branch of \<^verbatim>\<open>estimate_finish\<close> returns\<close>

lemma estimate_finish_timeout:
  assumes "\<not> m_confirmation_received m"
    and "m_timeout_duration m <s current_time - m_confirmation_request_time m"
  shows "estimate_finish m current_time request_time st eat cons = (Inr None, m)"
  using assms by (simp add: estimate_finish_def)

lemma estimate_finish_waiting:
  assumes "\<not> m_confirmation_received m"
    and "\<not> m_timeout_duration m <s current_time - m_confirmation_request_time m"
    and "time st = Some t" and "battery_soc st = Some b"
  shows "estimate_finish m current_time request_time st eat cons =
     ((if drain_battery cons then
         (if b - m_invariant_battery_drain m < 0 then Inr None
          else if b - m_invariant_battery_drain m \<le> threshold_soc cons then Inr None
          else Inr (Some \<lparr>finish_state =
                 st\<lparr>time := Some (t + m_initial_wait_duration m),
                    battery_soc := Some (b - m_invariant_battery_drain m)\<rparr>,
                 wait_until = eat\<rparr>))
       else
         (if b \<le> threshold_soc cons then Inr None
          else Inr (Some \<lparr>finish_state = st\<lparr>time := Some (t + m_initial_wait_duration m)\<rparr>,
                 wait_until = eat\<rparr>))),
      request_confirmation request_time m)"
  using assms
  by (simp add: estimate_finish_def update_battery_drain_def below_threshold_def Let_def)

lemma estimate_finish_confirmed:
  assumes "m_confirmation_received m"
    and "time st = Some t" and "battery_soc st = Some b"
  shows "estimate_finish m current_time request_time st eat cons =
     ((if drain_battery cons then
         (if b - m_invariant_battery_drain m < 0 then Inr None
          else if b - m_invariant_battery_drain m \<le> threshold_soc cons then Inr None
          else Inr (Some \<lparr>finish_state =
                 st\<lparr>battery_soc := Some (b - m_invariant_battery_drain m)\<rparr>,
                 wait_until = t\<rparr>))
       else
         (if b \<le> threshold_soc cons then Inr None
          else Inr (Some \<lparr>finish_state = st, wait_until = t\<rparr>))),
      m)"
  using assms
  by (simp add: estimate_finish_def update_battery_drain_def below_threshold_def Let_def)

lemma basic_estimate_finish_set:
  assumes "time st = Some t" and "battery_soc st = Some b"
  shows "basic_estimate_finish m st eat cons =
     (if drain_battery cons then
         (if b - m_invariant_battery_drain m < 0 then Inr None
          else if b - m_invariant_battery_drain m \<le> threshold_soc cons then Inr None
          else Inr (Some \<lparr>finish_state =
                 st\<lparr>time := Some (t + m_initial_wait_duration m),
                    battery_soc := Some (b - m_invariant_battery_drain m)\<rparr>,
                 wait_until = eat\<rparr>))
       else
         (if b \<le> threshold_soc cons then Inr None
          else Inr (Some \<lparr>finish_state = st\<lparr>time := Some (t + m_initial_wait_duration m)\<rparr>,
                 wait_until = eat\<rparr>)))"
  using assms
  by (simp add: basic_estimate_finish_def update_battery_drain_def below_threshold_def Let_def)

lemma estimate_finish_waiting_raises_iff:
  assumes "\<not> m_confirmation_received m"
    and "\<not> m_timeout_duration m <s current_time - m_confirmation_request_time m"
  shows "fst (estimate_finish m current_time request_time st eat cons) = Inl bad_optional_access
         \<longleftrightarrow> time st = None \<or> battery_soc st = None"
  using assms
  by (auto simp add: estimate_finish_def update_battery_drain_def below_threshold_def Let_def
      split: option.splits sum.splits bool.splits)

lemma estimate_finish_confirmed_raises_iff:
  assumes "m_confirmation_received m"
  shows "fst (estimate_finish m current_time request_time st eat cons) = Inl bad_optional_access
         \<longleftrightarrow>
         (case battery_soc st of
            None \<Rightarrow> True
          | Some b \<Rightarrow>
              time st = None \<and>
              (if drain_battery cons
               then \<not> b - m_invariant_battery_drain m < 0 \<and>
                    \<not> b - m_invariant_battery_drain m \<le> threshold_soc cons
               else \<not> b \<le> threshold_soc cons))"
  using assms
  by (auto simp add: estimate_finish_def update_battery_drain_def below_threshold_def Let_def
      split: option.splits sum.splits bool.splits)

lemma basic_estimate_finish_raises_iff:
  "basic_estimate_finish bm st eat cons = Inl bad_optional_access
     \<longleftrightarrow> time st = None \<or> battery_soc st = None"
  by (auto simp add: basic_estimate_finish_def update_battery_drain_def below_threshold_def Let_def
      split: option.splits sum.splits bool.splits)

lemma estimate_finish_keeps:
  "m_confirmation_received (snd (estimate_finish m ct rt st eat cons)) = m_confirmation_received m
   \<and> m_task_uuid (snd (estimate_finish m ct rt st eat cons)) = m_task_uuid m"
  by (simp add: estimate_finish_def update_battery_drain_def below_threshold_def Let_def
      request_confirmation_def split: option.splits sum.splits bool.splits)

lemma request_confirmation_simps:
  "m_confirmation_received (request_confirmation now m) = m_confirmation_received m"
  "m_confirmation_request_time (request_confirmation now m) = now"
  "m_timeout_duration (request_confirmation now m) = m_timeout_duration m"
  "m_initial_wait_duration (request_confirmation now m) = m_initial_wait_duration m"
  "m_invariant_battery_drain (request_confirmation now m) = m_invariant_battery_drain m"
  "m_task_uuid (request_confirmation now m) = m_task_uuid m"
  by (simp_all add: request_confirmation_def)

lemma Model_simps:
  "m_confirmation_received (Model ts ist iwd td ps uuid now) = False"
  "m_confirmation_request_time (Model ts ist iwd td ps uuid now) = now"
  "m_timeout_duration (Model ts ist iwd td ps uuid now) = td"
  "m_initial_wait_duration (Model ts ist iwd td ps uuid now) = iwd"
  "m_task_uuid (Model ts ist iwd td ps uuid now) = uuid"
  by (simp_all add: Model_def request_confirmation_def)

lemma extend_wait_no_drain:
  assumes "\<not> m_confirmation_received m"
    and "\<not> m_timeout_duration m <s current_time - m_confirmation_request_time m"
    and "time st = Some t" and "battery_soc st = Some b"
    and "\<not> drain_battery cons" and "\<not> b \<le> threshold_soc cons"
  shows "estimate_finish m current_time request_time st eat cons =
           (Inr (Some \<lparr>finish_state = st\<lparr>time := Some (t + m_initial_wait_duration m)\<rparr>,
                       wait_until = eat\<rparr>),
            request_confirmation request_time m)"
  using assms by (simp add: estimate_finish_waiting)

subsection \<open>Signed 64-bit arithmetic of the clock\<close>

lemma seconds_sint:
  "sint (seconds 5) = 5000000000" "sint (seconds 20) = 20000000000"
  "sint (seconds 21) = 21000000000" "sint (seconds 30) = 30000000000"
  "sint (seconds 41) = 41000000000" "sint (- seconds 5) = - 5000000000"
  "sint (- seconds 1) = - 1000000000"
  by (simp_all add: seconds_def)

lemma sint_sub_nonneg:
  fixes a d :: "64 word"
  assumes "0 \<le>s d" and "0 \<le>s a"
  shows "sint (a - d) = sint a - sint d"
proof -
  have d: "0 \<le> sint d" "sint d < 2 ^ 63"
    using assms(1) sint_lt [of d] by (simp_all add: word_sle_eq)
  have a: "0 \<le> sint a" "sint a < 2 ^ 63"
    using assms(2) sint_lt [of a] by (simp_all add: word_sle_eq)
  have "sint (a - d) = signed_take_bit 63 (sint a - sint d)"
    by (simp add: sint_word_ariths)
  also have "\<dots> = sint a - sint d"
    using a d by (intro signed_take_bit_int_eq_self) simp_all
  finally show ?thesis .
qed

lemma elapsed_since_request:
  fixes c q :: "64 word"
  assumes "0 \<le>s q - c"
  shows "\<not> seconds 20 <s (c + seconds 5) - q"
proof -
  have e: "(c + seconds 5) - q = seconds 5 - (q - c)" by simp
  have "0 \<le>s seconds 5" by (simp add: word_sle_eq seconds_sint)
  with assms have "sint (seconds 5 - (q - c)) = sint (seconds 5) - sint (q - c)"
    by (simp add: sint_sub_nonneg)
  moreover have "0 \<le> sint (q - c)" using assms by (simp add: word_sle_eq)
  ultimately show ?thesis
    unfolding e by (simp add: word_sless_alt seconds_sint)
qed

lemma sint_add_in_range:
  fixes t d :: "64 word"
  assumes "- (2 ^ 63) \<le> sint t + sint d" and "sint t + sint d < 2 ^ 63"
  shows "sint (t + d) = sint t + sint d"
proof -
  have "sint (t + d) = signed_take_bit 63 (sint t + sint d)"
    by (simp add: sint_word_ariths)
  also have "\<dots> = sint t + sint d"
    using assms by (intro signed_take_bit_int_eq_self) simp_all
  finally show ?thesis .
qed

subsection \<open>The concrete inputs\<close>

lemma example_model_simps:
  "m_confirmation_received example_model = False"
  "m_confirmation_request_time example_model = 0"
  "m_timeout_duration example_model = seconds 20"
  "m_initial_wait_duration example_model = seconds 5"
  "m_invariant_battery_drain example_model = 0"
  "m_task_uuid example_model = ''task-a''"
  by (simp_all add: example_model_def Model_def request_confirmation_def)

lemma draining_model_simps:
  "m_confirmation_received draining_model = False"
  "m_confirmation_request_time draining_model = 0"
  "m_timeout_duration draining_model = seconds 20"
  "m_initial_wait_duration draining_model = seconds 5"
  "m_invariant_battery_drain draining_model = 5 / 8"
  "m_task_uuid draining_model = ''task-a''"
  by (simp_all add: draining_model_def Model_def request_confirmation_def
      to_seconds_exact_def word_sless_alt seconds_sint)

lemma confirmed_model_simps:
  "m_confirmation_received confirmed_model = True"
  "m_confirmation_request_time confirmed_model = 0"
  "m_timeout_duration confirmed_model = seconds 20"
  "m_initial_wait_duration confirmed_model = seconds 5"
  "m_invariant_battery_drain confirmed_model = 0"
  "m_task_uuid confirmed_model = ''task-a''"
  by (simp_all add: confirmed_model_def on_confirmation_received_def example_model_simps)

lemma basic_example_model_simps:
  "m_initial_wait_duration basic_example_model = seconds 5"
  "m_invariant_battery_drain basic_example_model = 0"
  by (simp_all add: basic_example_model_def basic_Model_def)

lemma negative_wait_model_simps:
  "m_confirmation_received negative_wait_model = False"
  "m_confirmation_request_time negative_wait_model = 0"
  "m_timeout_duration negative_wait_model = seconds 20"
  "m_initial_wait_duration negative_wait_model = - seconds 5"
  "m_invariant_battery_drain negative_wait_model = 0"
  by (simp_all add: negative_wait_model_def make_model_def make_description_def Model_def
      request_confirmation_def to_seconds_exact_def word_sless_alt seconds_sint)

lemma negative_timeout_model_simps:
  "m_confirmation_received negative_timeout_model = False"
  "m_confirmation_request_time negative_timeout_model = 0"
  "m_timeout_duration negative_timeout_model = - seconds 1"
  "m_initial_wait_duration negative_timeout_model = seconds 5"
  by (simp_all add: negative_timeout_model_def make_model_def make_description_def Model_def
      request_confirmation_def)

lemma clock_examples:
  "\<not> seconds 20 <s seconds 5" "seconds 20 <s seconds 21"
  "seconds 20 <s seconds 30" "seconds 5 \<le>s seconds 20"
  "seconds 21 \<le>s seconds 30" "- seconds 1 <s 0"
  by (simp_all add: word_sless_alt word_sle_eq seconds_sint)

lemma example_runs:
  "estimate_finish example_model (seconds 5) (seconds 5) example_state 7 no_drain =
     (Inr (Some \<lparr>finish_state = \<lparr>time = Some (seconds 5), battery_soc = Some (1 / 2)\<rparr>,
                 wait_until = 7\<rparr>),
      request_confirmation (seconds 5) example_model)"
  "estimate_finish confirmed_model (seconds 5) (seconds 5) example_state 7 no_drain =
     (Inr (Some \<lparr>finish_state = example_state, wait_until = 0\<rparr>), confirmed_model)"
  "basic_estimate_finish basic_example_model example_state 7 no_drain =
     Inr (Some \<lparr>finish_state = \<lparr>time = Some (seconds 5), battery_soc = Some (1 / 2)\<rparr>,
                wait_until = 7\<rparr>)"
  by (simp_all add: estimate_finish_def basic_estimate_finish_def update_battery_drain_def
      below_threshold_def example_model_simps confirmed_model_simps basic_example_model_simps
      example_state_def no_drain_def clock_examples)

subsection \<open>Timeout\<close>

text \<open>
  Claim C4. While confirmation has not been received, a call of \<^verbatim>\<open>estimate_finish\<close> whose
  elapsed time (the clock minus the time of the last request) exceeds the timeout returns
  \<^verbatim>\<open>std::nullopt\<close>, whatever the state and the constraints, and leaves the model as it was.
  The rejection is not transient: the same model rejects every call, with any arguments, at
  which the elapsed time is no smaller (that is, at every later reading of the clock, as long
  as the 64-bit difference has not wrapped around), as long as no confirmation arrives.
\<close>

theorem timeout_returns_none:
  assumes "\<not> m_confirmation_received m"
    and "m_timeout_duration m <s current_time - m_confirmation_request_time m"
  shows "estimate_finish m current_time request_time st eat cons = (Inr None, m)
         \<and> (\<forall>later request_time' st' eat' cons'.
               current_time - m_confirmation_request_time m
                 \<le>s later - m_confirmation_request_time m \<longrightarrow>
               estimate_finish m later request_time' st' eat' cons' = (Inr None, m))"
proof -
  have "estimate_finish m later request_time' st' eat' cons' = (Inr None, m)"
    if "current_time - m_confirmation_request_time m
          \<le>s later - m_confirmation_request_time m"
    for later request_time' st' eat' cons'
  proof -
    from assms(2) that have "m_timeout_duration m <s later - m_confirmation_request_time m"
      by (rule signed.less_le_trans)
    with assms(1) show ?thesis by (rule estimate_finish_timeout)
  qed
  with estimate_finish_timeout [OF assms] show ?thesis by blast
qed

theorem timeout_returns_none_witness:
  "\<not> m_confirmation_received example_model
   \<and> m_timeout_duration example_model
        <s seconds 21 - m_confirmation_request_time example_model
   \<and> estimate_finish example_model (seconds 21) (seconds 21) example_state 7 no_drain
       = (Inr None, example_model)
   \<and> seconds 21 - m_confirmation_request_time example_model
        \<le>s seconds 30 - m_confirmation_request_time example_model
   \<and> estimate_finish example_model (seconds 30) (seconds 30) example_state 7 no_drain
       = (Inr None, example_model)"
proof -
  have h1: "\<not> m_confirmation_received example_model"
    by (simp add: example_model_simps)
  have h2: "m_timeout_duration example_model
              <s seconds 21 - m_confirmation_request_time example_model"
    by (simp add: example_model_simps clock_examples)
  have le: "seconds 21 - m_confirmation_request_time example_model
        \<le>s seconds 30 - m_confirmation_request_time example_model"
    by (simp add: example_model_simps clock_examples)
  from timeout_returns_none [OF h1 h2, of "seconds 21" example_state 7 no_drain] le h1 h2
  show ?thesis by blast
qed

text \<open>
  Claim C9. A call rejected for timeout changes nothing in the model (in particular it does
  not refresh the time of the last request), so repeating the call with the same inputs at
  the same clock reading, any number of times, is rejected again.
\<close>

theorem timeout_rejection_idempotent:
  assumes "\<not> m_confirmation_received m"
    and "m_timeout_duration m <s current_time - m_confirmation_request_time m"
  shows "fst (estimate_finish m current_time request_time st eat cons) = Inr None
         \<and> snd (estimate_finish m current_time request_time st eat cons) = m
         \<and> ((\<lambda>m'. snd (estimate_finish m' current_time request_time st eat cons)) ^^ n) m = m
         \<and> fst (estimate_finish
                 (((\<lambda>m'. snd (estimate_finish m' current_time request_time st eat cons)) ^^ n) m)
                 current_time request_time st eat cons) = Inr None"
proof -
  let ?f = "\<lambda>m'. snd (estimate_finish m' current_time request_time st eat cons)"
  have one: "estimate_finish m current_time request_time st eat cons = (Inr None, m)"
    using assms by (rule estimate_finish_timeout)
  then have stays: "?f m = m" by simp
  have "(?f ^^ k) m = m" for k
    by (induction k) (simp_all add: stays)
  with one show ?thesis by simp
qed

theorem timeout_rejection_idempotent_witness:
  "\<not> m_confirmation_received example_model
   \<and> m_timeout_duration example_model
        <s seconds 21 - m_confirmation_request_time example_model
   \<and> fst (estimate_finish example_model (seconds 21) (seconds 21) example_state 7 no_drain)
       = Inr None
   \<and> m_confirmation_request_time
       (snd (estimate_finish example_model (seconds 21) (seconds 21) example_state 7 no_drain))
       = 0
   \<and> fst (estimate_finish
           (snd (estimate_finish example_model (seconds 21) (seconds 21) example_state 7
                   no_drain))
           (seconds 21) (seconds 21) example_state 7 no_drain) = Inr None"
proof -
  have h1: "\<not> m_confirmation_received example_model"
    by (simp add: example_model_simps)
  have h2: "m_timeout_duration example_model
              <s seconds 21 - m_confirmation_request_time example_model"
    by (simp add: example_model_simps clock_examples)
  from timeout_rejection_idempotent
    [OF h1 h2, of "seconds 21" example_state 7 no_drain "Suc 0"] h1 h2
  show ?thesis by (simp add: example_model_simps)
qed

subsection \<open>Invariant duration and battery drain\<close>

text \<open>
  Claim C6. \<^verbatim>\<open>invariant_duration()\<close> is the initial wait duration while confirmation has not
  been received and 0 once it has: a freshly made model returns the configured duration, a
  model that has received the message carrying its own UUID returns 0. This holds for every
  duration, non-negative or not. The model without messaging always returns the duration.
\<close>

theorem invariant_duration_latch:
  "invariant_duration m = (if m_confirmation_received m then 0 else m_initial_wait_duration m)
   \<and> invariant_duration (make_model ts (make_description iwd td) st ps uuid now) = iwd
   \<and> invariant_duration (on_confirmation_received m (m_task_uuid m)) = 0
   \<and> basic_invariant_duration (basic_make_model ts (make_description iwd td) st ps) = iwd"
  by (simp add: invariant_duration_def make_model_def make_description_def Model_def
      request_confirmation_def on_confirmation_received_def basic_invariant_duration_def
      basic_make_model_def basic_Model_def)

text \<open>
  Claim C7 (as amended). \<^verbatim>\<open>Description::make\<close> accepts every pair of durations, negative ones
  too, and stores them as given. The model made from the description normalises a negative
  initial wait to zero in one place only, the computation of the invariant battery drain: the
  drain is the ambient power system's change in charge over the seconds of the greater of the
  initial wait and 0 when the parameters have such a system, and 0 when they have none. The
  wait and the timeout the model stores, and the duration \<^verbatim>\<open>invariant_duration()\<close> returns,
  are the configured ones with their sign. The same holds for the model without messaging.
\<close>

theorem negative_durations_kept:
  "initial_wait_duration (make_description iwd td) = iwd
   \<and> timeout_duration (make_description iwd td) = td
   \<and> m_invariant_battery_drain (make_model ts (make_description iwd td) st ps uuid now) =
       (case ambient_sink ps of
          None \<Rightarrow> 0
        | Some compute_change_in_charge \<Rightarrow>
            compute_change_in_charge (ts (if iwd <s 0 then 0 else iwd)))
   \<and> sint (if iwd <s 0 then 0 else iwd) = max (sint iwd) 0
   \<and> m_initial_wait_duration (make_model ts (make_description iwd td) st ps uuid now) = iwd
   \<and> m_timeout_duration (make_model ts (make_description iwd td) st ps uuid now) = td
   \<and> invariant_duration (make_model ts (make_description iwd td) st ps uuid now) = iwd
   \<and> m_invariant_battery_drain (basic_make_model ts (make_description iwd td) st ps) =
       (case ambient_sink ps of
          None \<Rightarrow> 0
        | Some compute_change_in_charge \<Rightarrow>
            compute_change_in_charge (ts (if iwd <s 0 then 0 else iwd)))
   \<and> m_initial_wait_duration (basic_make_model ts (make_description iwd td) st ps) = iwd
   \<and> m_timeout_duration (basic_make_model ts (make_description iwd td) st ps) = td
   \<and> basic_invariant_duration (basic_make_model ts (make_description iwd td) st ps) = iwd"
proof -
  have s: "sint (if iwd <s 0 then 0 else iwd) = max (sint iwd) 0"
    by (simp add: word_sless_alt max_def)
  show ?thesis
    unfolding s
    by (simp add: make_model_def make_description_def Model_def request_confirmation_def
        basic_make_model_def basic_Model_def invariant_duration_def
        basic_invariant_duration_def split: option.splits)
qed

text \<open>
  Claim C7 as stated fails: the model does not normalise negative durations to zero. A model
  made with a wait of -5 s has drain 0 (the drain over 0 s), yet \<^verbatim>\<open>invariant_duration()\<close>
  returns -5 s and a call moves the state's time back by 5 s; a model made with a timeout of
  -1 s rejects for timeout a call made at the instant of its construction, which a timeout of
  0 would let pass.
\<close>

theorem negative_durations_used_counterexample:
  "m_invariant_battery_drain negative_wait_model = 0
   \<and> invariant_duration negative_wait_model = - seconds 5
   \<and> sint (- seconds 5) = - 5000000000
   \<and> fst (estimate_finish negative_wait_model (seconds 5) (seconds 5) example_state 7 no_drain)
       = Inr (Some \<lparr>finish_state = \<lparr>time = Some (- seconds 5), battery_soc = Some (1 / 2)\<rparr>,
                   wait_until = 7\<rparr>)
   \<and> m_timeout_duration negative_timeout_model = - seconds 1
   \<and> fst (estimate_finish negative_timeout_model 0 0 example_state 7 no_drain) = Inr None
   \<and> fst (estimate_finish
           (make_model to_seconds_exact (make_description (seconds 5) 0) example_state
              \<lparr>ambient_sink = Some (\<lambda>s. s / 8)\<rparr> ''task-a'' 0)
           0 0 example_state 7 no_drain)
       = Inr (Some \<lparr>finish_state = \<lparr>time = Some (seconds 5), battery_soc = Some (1 / 2)\<rparr>,
                   wait_until = 7\<rparr>)"
  by (simp add: estimate_finish_def update_battery_drain_def below_threshold_def
      invariant_duration_def negative_wait_model_simps negative_timeout_model_simps
      example_state_def no_drain_def clock_examples seconds_sint
      make_model_def make_description_def Model_def request_confirmation_def)

subsection \<open>Scenario 1: polling without confirmation\<close>

text \<open>
  Claim C2 (as amended). Scenario 1: a model with an initial wait of 5 s and a timeout of 20 s
  is constructed when the clock reads \<open>c\<close>; no confirmation arrives; the battery is not
  drained and the charge is not at or below the threshold. Four calls are made at \<open>c\<close> + 5 s,
  10 s, 15 s and 20 s, each with the finish state of the call before. Every call that extends
  the wait records a new request time (\<open>q1\<close> to \<open>q4\<close>, read from the clock no earlier than the
  call), so the elapsed time never exceeds the timeout: all four calls succeed, each advancing
  the state's time by 5 s and returning the given earliest arrival time. A further call is
  rejected for timeout once it is made more than 20 s after the fourth call's request.
\<close>

theorem scenario_four_polls:
  assumes st: "time st = Some t" "battery_soc st = Some b"
    and cons: "\<not> drain_battery cons" "\<not> b \<le> threshold_soc cons"
    and clock: "0 \<le>s q1 - (c + seconds 5)" "0 \<le>s q2 - (c + seconds 10)"
      "0 \<le>s q3 - (c + seconds 15)" "0 \<le>s q4 - (c + seconds 20)"
    and late: "seconds 20 <s c5 - q4"
  shows
    "(let m0 = Model ts ist (seconds 5) (seconds 20) ps uuid c;
          (r1, m1) = estimate_finish m0 (c + seconds 5) q1 st eat cons;
          st1 = st\<lparr>time := Some (t + seconds 5)\<rparr>;
          (r2, m2) = estimate_finish m1 (c + seconds 10) q2 st1 eat cons;
          st2 = st\<lparr>time := Some (t + seconds 10)\<rparr>;
          (r3, m3) = estimate_finish m2 (c + seconds 15) q3 st2 eat cons;
          st3 = st\<lparr>time := Some (t + seconds 15)\<rparr>;
          (r4, m4) = estimate_finish m3 (c + seconds 20) q4 st3 eat cons;
          st4 = st\<lparr>time := Some (t + seconds 20)\<rparr>;
          (r5, m5) = estimate_finish m4 c5 q5 st4 eat cons
      in r1 = Inr (Some \<lparr>finish_state = st1, wait_until = eat\<rparr>)
       \<and> r2 = Inr (Some \<lparr>finish_state = st2, wait_until = eat\<rparr>)
       \<and> r3 = Inr (Some \<lparr>finish_state = st3, wait_until = eat\<rparr>)
       \<and> r4 = Inr (Some \<lparr>finish_state = st4, wait_until = eat\<rparr>)
       \<and> r5 = Inr None)"
proof -
  define m0 where "m0 = Model ts ist (seconds 5) (seconds 20) ps uuid c"
  define m1 where "m1 = request_confirmation q1 m0"
  define m2 where "m2 = request_confirmation q2 m1"
  define m3 where "m3 = request_confirmation q3 m2"
  define m4 where "m4 = request_confirmation q4 m3"
  define st1 where "st1 = st\<lparr>time := Some (t + seconds 5)\<rparr>"
  define st2 where "st2 = st\<lparr>time := Some (t + seconds 10)\<rparr>"
  define st3 where "st3 = st\<lparr>time := Some (t + seconds 15)\<rparr>"
  define st4 where "st4 = st\<lparr>time := Some (t + seconds 20)\<rparr>"
  have g1: "\<not> seconds 20 <s (c + seconds 5) - c"
    by (simp add: clock_examples)
  have a2: "c + seconds 10 = (c + seconds 5) + seconds 5" by (simp add: seconds_def)
  have a3: "c + seconds 15 = (c + seconds 10) + seconds 5" by (simp add: seconds_def)
  have a4: "c + seconds 20 = (c + seconds 15) + seconds 5" by (simp add: seconds_def)
  have g2: "\<not> seconds 20 <s (c + seconds 10) - q1"
    unfolding a2 by (rule elapsed_since_request [OF clock(1)])
  have g3: "\<not> seconds 20 <s (c + seconds 15) - q2"
    unfolding a3 by (rule elapsed_since_request [OF clock(2)])
  have g4: "\<not> seconds 20 <s (c + seconds 20) - q3"
    unfolding a4 by (rule elapsed_since_request [OF clock(3)])
  have b2: "t + seconds 5 + seconds 5 = t + seconds 10" by (simp add: seconds_def)
  have b3: "t + seconds 10 + seconds 5 = t + seconds 15" by (simp add: seconds_def)
  have b4: "t + seconds 15 + seconds 5 = t + seconds 20" by (simp add: seconds_def)
  have e1: "estimate_finish m0 (c + seconds 5) q1 st eat cons =
              (Inr (Some \<lparr>finish_state = st1, wait_until = eat\<rparr>), m1)"
    unfolding m1_def st1_def
    using extend_wait_no_drain [of m0 "c + seconds 5" st t b cons q1 eat] st cons g1
    by (simp add: m0_def Model_simps)
  have e2: "estimate_finish m1 (c + seconds 10) q2 st1 eat cons =
              (Inr (Some \<lparr>finish_state = st2, wait_until = eat\<rparr>), m2)"
    unfolding m2_def st2_def
    using extend_wait_no_drain [of m1 "c + seconds 10" st1 "t + seconds 5" b cons q2 eat]
      st cons g2
    by (simp add: m1_def m0_def st1_def Model_simps request_confirmation_simps b2)
  have e3: "estimate_finish m2 (c + seconds 15) q3 st2 eat cons =
              (Inr (Some \<lparr>finish_state = st3, wait_until = eat\<rparr>), m3)"
    unfolding m3_def st3_def
    using extend_wait_no_drain [of m2 "c + seconds 15" st2 "t + seconds 10" b cons q3 eat]
      st cons g3
    by (simp add: m2_def m1_def m0_def st2_def Model_simps request_confirmation_simps b3)
  have e4: "estimate_finish m3 (c + seconds 20) q4 st3 eat cons =
              (Inr (Some \<lparr>finish_state = st4, wait_until = eat\<rparr>), m4)"
    unfolding m4_def st4_def
    using extend_wait_no_drain [of m3 "c + seconds 20" st3 "t + seconds 15" b cons q4 eat]
      st cons g4
    by (simp add: m3_def m2_def m1_def m0_def st3_def Model_simps request_confirmation_simps b4)
  have e5: "estimate_finish m4 c5 q5 st4 eat cons = (Inr None, m4)"
    using late
    by (intro estimate_finish_timeout)
      (simp_all add: m4_def m3_def m2_def m1_def m0_def Model_simps request_confirmation_simps)
  show ?thesis
    using e1 e2 e3 e4 e5
    by (simp add: m0_def [symmetric] st1_def [symmetric] st2_def [symmetric]
        st3_def [symmetric] st4_def [symmetric])
qed

theorem scenario_four_polls_witness:
  "time example_state = Some 0 \<and> battery_soc example_state = Some (1 / 2)
   \<and> \<not> drain_battery no_drain \<and> \<not> 1 / 2 \<le> threshold_soc no_drain
   \<and> 0 \<le>s seconds 5 - (0 + seconds 5) \<and> 0 \<le>s seconds 10 - (0 + seconds 10)
   \<and> 0 \<le>s seconds 15 - (0 + seconds 15) \<and> 0 \<le>s seconds 20 - (0 + seconds 20)
   \<and> seconds 20 <s seconds 41 - seconds 20
   \<and> (let m0 = Model to_seconds_exact example_state (seconds 5) (seconds 20)
                 \<lparr>ambient_sink = None\<rparr> ''task-a'' 0;
          (r1, m1) = estimate_finish m0 (0 + seconds 5) (seconds 5) example_state 7 no_drain;
          st1 = example_state\<lparr>time := Some (0 + seconds 5)\<rparr>;
          (r2, m2) = estimate_finish m1 (0 + seconds 10) (seconds 10) st1 7 no_drain;
          st2 = example_state\<lparr>time := Some (0 + seconds 10)\<rparr>;
          (r3, m3) = estimate_finish m2 (0 + seconds 15) (seconds 15) st2 7 no_drain;
          st3 = example_state\<lparr>time := Some (0 + seconds 15)\<rparr>;
          (r4, m4) = estimate_finish m3 (0 + seconds 20) (seconds 20) st3 7 no_drain;
          st4 = example_state\<lparr>time := Some (0 + seconds 20)\<rparr>;
          (r5, m5) = estimate_finish m4 (seconds 41) (seconds 41) st4 7 no_drain
      in r1 = Inr (Some \<lparr>finish_state = st1, wait_until = 7\<rparr>)
       \<and> r2 = Inr (Some \<lparr>finish_state = st2, wait_until = 7\<rparr>)
       \<and> r3 = Inr (Some \<lparr>finish_state = st3, wait_until = 7\<rparr>)
       \<and> r4 = Inr (Some \<lparr>finish_state = st4, wait_until = 7\<rparr>)
       \<and> r5 = Inr None)"
proof -
  have h1: "time example_state = Some 0" by (simp add: example_state_def)
  have h2: "battery_soc example_state = Some (1 / 2)" by (simp add: example_state_def)
  have h3: "\<not> drain_battery no_drain" by (simp add: no_drain_def)
  have h4: "\<not> 1 / 2 \<le> threshold_soc no_drain" by (simp add: no_drain_def)
  have h5: "0 \<le>s seconds 5 - (0 + seconds 5)" by simp
  have h6: "0 \<le>s seconds 10 - (0 + seconds 10)" by simp
  have h7: "0 \<le>s seconds 15 - (0 + seconds 15)" by simp
  have h8: "0 \<le>s seconds 20 - (0 + seconds 20)" by simp
  have h9: "seconds 20 <s seconds 41 - seconds 20"
    by (simp add: seconds_def word_sless_alt)
  note r = scenario_four_polls [OF h1 h2 h3 h4 h5 h6 h7 h8 h9,
      of to_seconds_exact example_state "\<lparr>ambient_sink = None\<rparr>" "''task-a''" 7 "seconds 41"]
  from h1 h2 h3 h4 h5 h6 h7 h8 h9 r show ?thesis by blast
qed

text \<open>
  The scenario as claim C2 states it, with the clock at 0 on construction and both clock reads
  of every call at the same instant: the fourth call, made 20 s after construction, returns
  an estimate and not \<^verbatim>\<open>std::nullopt\<close>.
\<close>

theorem fourth_poll_succeeds_counterexample:
  "fst (estimate_finish
         (snd (estimate_finish
           (snd (estimate_finish
             (snd (estimate_finish example_model (seconds 5) (seconds 5) example_state 7 no_drain))
             (seconds 10) (seconds 10) (example_state\<lparr>time := Some (seconds 5)\<rparr>) 7 no_drain))
           (seconds 15) (seconds 15) (example_state\<lparr>time := Some (seconds 10)\<rparr>) 7 no_drain))
         (seconds 20) (seconds 20) (example_state\<lparr>time := Some (seconds 15)\<rparr>) 7 no_drain)
   = Inr (Some \<lparr>finish_state = \<lparr>time = Some (seconds 20), battery_soc = Some (1 / 2)\<rparr>,
               wait_until = 7\<rparr>)"
  by (simp add: estimate_finish_def update_battery_drain_def below_threshold_def
      request_confirmation_def example_model_def Model_def example_state_def no_drain_def
      seconds_def word_sless_alt)

subsection \<open>Battery checks\<close>

text \<open>
  Claim C1 (as amended). With \<^verbatim>\<open>drain_battery\<close> false, \<^verbatim>\<open>estimate_finish\<close> subtracts no drain and
  does not compare the charge with 0.0, but it still compares it with the threshold: on a state
  whose time and charge are set, a call that does not take the timeout exit returns
  \<^verbatim>\<open>std::nullopt\<close> exactly when \<open>battery_soc \<le> threshold_soc\<close>, and otherwise succeeds with the
  charge unchanged. The same holds for the model without messaging.
\<close>

theorem no_drain_threshold_only:
  assumes "\<not> drain_battery cons" and "time st = Some t" and "battery_soc st = Some b"
  shows "(\<not> m_confirmation_received m
          \<and> current_time - m_confirmation_request_time m \<le>s m_timeout_duration m \<longrightarrow>
            fst (estimate_finish m current_time request_time st eat cons) =
              (if b \<le> threshold_soc cons then Inr None
               else Inr (Some \<lparr>finish_state = st\<lparr>time := Some (t + m_initial_wait_duration m)\<rparr>,
                               wait_until = eat\<rparr>)))
       \<and> (m_confirmation_received m \<longrightarrow>
            fst (estimate_finish m current_time request_time st eat cons) =
              (if b \<le> threshold_soc cons then Inr None
               else Inr (Some \<lparr>finish_state = st, wait_until = t\<rparr>)))
       \<and> basic_estimate_finish bm st eat cons =
            (if b \<le> threshold_soc cons then Inr None
             else Inr (Some \<lparr>finish_state = st\<lparr>time := Some (t + m_initial_wait_duration bm)\<rparr>,
                             wait_until = eat\<rparr>))"
  using assms
  by (simp add: estimate_finish_waiting estimate_finish_confirmed basic_estimate_finish_set
      signed.not_less)

theorem no_drain_threshold_only_witness:
  "\<not> drain_battery no_drain
   \<and> time example_state = Some 0 \<and> battery_soc example_state = Some (1 / 2)
   \<and> \<not> m_confirmation_received example_model
   \<and> seconds 5 - m_confirmation_request_time example_model \<le>s m_timeout_duration example_model
   \<and> fst (estimate_finish example_model (seconds 5) (seconds 5) example_state 7 no_drain) =
       Inr (Some \<lparr>finish_state = \<lparr>time = Some (seconds 5), battery_soc = Some (1 / 2)\<rparr>,
                   wait_until = 7\<rparr>)
   \<and> m_confirmation_received (on_confirmation_received example_model ''task-a'')
   \<and> fst (estimate_finish (on_confirmation_received example_model ''task-a'')
            (seconds 5) (seconds 5) example_state 7 no_drain) =
       Inr (Some \<lparr>finish_state = example_state, wait_until = 0\<rparr>)"
proof -
  have h1: "\<not> drain_battery no_drain" by (simp add: no_drain_def)
  have h2: "time example_state = Some 0" by (simp add: example_state_def)
  have h3: "battery_soc example_state = Some (1 / 2)" by (simp add: example_state_def)
  have w: "\<not> m_confirmation_received example_model"
    "seconds 5 - m_confirmation_request_time example_model \<le>s m_timeout_duration example_model"
    by (simp_all add: example_model_simps clock_examples)
  have c: "m_confirmation_received (on_confirmation_received example_model ''task-a'')"
    by (simp add: on_confirmation_received_def example_model_simps)
  have thr: "\<not> (1 / 2 :: real) \<le> threshold_soc no_drain" by (simp add: no_drain_def)
  note a = no_drain_threshold_only [OF h1 h2 h3, of example_model "seconds 5" "seconds 5" 7]
  note b = no_drain_threshold_only [OF h1 h2 h3,
      of "on_confirmation_received example_model ''task-a''" "seconds 5" "seconds 5" 7]
  from a w thr have r1:
    "fst (estimate_finish example_model (seconds 5) (seconds 5) example_state 7 no_drain) =
       Inr (Some \<lparr>finish_state = \<lparr>time = Some (seconds 5), battery_soc = Some (1 / 2)\<rparr>,
                   wait_until = 7\<rparr>)"
    by (simp add: example_model_simps example_state_def)
  from b c thr have r2:
    "fst (estimate_finish (on_confirmation_received example_model ''task-a'')
            (seconds 5) (seconds 5) example_state 7 no_drain) =
       Inr (Some \<lparr>finish_state = example_state, wait_until = 0\<rparr>)"
    by simp
  from h1 h2 h3 w c r1 r2 show ?thesis by blast
qed

text \<open>
  Claim C1 as stated fails: with \<^verbatim>\<open>drain_battery\<close> false, a charge of 1/16 and a threshold of
  1/8, a call made before the timeout is rejected, in both implementations.
\<close>

theorem no_drain_rejected_at_threshold_counterexample:
  "\<not> drain_battery no_drain
   \<and> \<not> m_timeout_duration example_model
         <s seconds 5 - m_confirmation_request_time example_model
   \<and> fst (estimate_finish example_model (seconds 5) (seconds 5)
           \<lparr>time = Some 0, battery_soc = Some (1 / 16)\<rparr> 7 no_drain) = Inr None
   \<and> basic_estimate_finish basic_example_model
         \<lparr>time = Some 0, battery_soc = Some (1 / 16)\<rparr> 7 no_drain = Inr None"
  by (simp add: estimate_finish_def basic_estimate_finish_def update_battery_drain_def
      below_threshold_def example_model_simps basic_example_model_simps no_drain_def
      clock_examples)

text \<open>
  Claim C5 (as amended). On a state whose time and charge are set: when \<^verbatim>\<open>drain_battery\<close> is
  true and the charge less the invariant drain, as the subtraction of \<^verbatim>\<open>double\<close> computes it,
  is below 0.0 the result is \<^verbatim>\<open>std::nullopt\<close>; when the charge (less the drain, if
  \<^verbatim>\<open>drain_battery\<close> is true) is at or below the threshold the result is \<^verbatim>\<open>std::nullopt\<close>; each
  test rejects on its own. On a call that does not take the timeout exit these are the only
  rejections, so with \<^verbatim>\<open>drain_battery\<close> false the comparison with 0.0 is not made. The same
  holds for the model without messaging.
\<close>

theorem battery_predicates:
  assumes "time st = Some t" and "battery_soc st = Some b"
  shows
    "(drain_battery cons \<and> b - m_invariant_battery_drain m < 0 \<longrightarrow>
        fst (estimate_finish m current_time request_time st eat cons) = Inr None)
     \<and> ((if drain_battery cons then b - m_invariant_battery_drain m else b) \<le> threshold_soc cons
        \<longrightarrow> fst (estimate_finish m current_time request_time st eat cons) = Inr None)
     \<and> (m_confirmation_received m
          \<or> current_time - m_confirmation_request_time m \<le>s m_timeout_duration m \<longrightarrow>
        (fst (estimate_finish m current_time request_time st eat cons) = Inr None
           \<longleftrightarrow> (drain_battery cons \<and> b - m_invariant_battery_drain m < 0)
               \<or> (if drain_battery cons then b - m_invariant_battery_drain m else b)
                    \<le> threshold_soc cons))
     \<and> (basic_estimate_finish bm st eat cons = Inr None
           \<longleftrightarrow> (drain_battery cons \<and> b - m_invariant_battery_drain bm < 0)
               \<or> (if drain_battery cons then b - m_invariant_battery_drain bm else b)
                    \<le> threshold_soc cons)"
proof -
  consider (timeout) "\<not> m_confirmation_received m"
      "m_timeout_duration m <s current_time - m_confirmation_request_time m"
    | (waiting) "\<not> m_confirmation_received m"
      "\<not> m_timeout_duration m <s current_time - m_confirmation_request_time m"
    | (confirmed) "m_confirmation_received m"
    by blast
  then have live:
    "(drain_battery cons \<and> b - m_invariant_battery_drain m < 0 \<longrightarrow>
        fst (estimate_finish m current_time request_time st eat cons) = Inr None)
     \<and> ((if drain_battery cons then b - m_invariant_battery_drain m else b) \<le> threshold_soc cons
        \<longrightarrow> fst (estimate_finish m current_time request_time st eat cons) = Inr None)
     \<and> (m_confirmation_received m
          \<or> current_time - m_confirmation_request_time m \<le>s m_timeout_duration m \<longrightarrow>
        (fst (estimate_finish m current_time request_time st eat cons) = Inr None
           \<longleftrightarrow> (drain_battery cons \<and> b - m_invariant_battery_drain m < 0)
               \<or> (if drain_battery cons then b - m_invariant_battery_drain m else b)
                    \<le> threshold_soc cons))"
  proof cases
    case timeout
    then have "\<not> current_time - m_confirmation_request_time m \<le>s m_timeout_duration m"
      by (simp add: signed.not_le)
    with timeout show ?thesis by (simp add: estimate_finish_timeout)
  next
    case waiting
    with assms show ?thesis by (simp add: estimate_finish_waiting signed.not_less)
  next
    case confirmed
    with assms show ?thesis by (simp add: estimate_finish_confirmed)
  qed
  from assms have
    "basic_estimate_finish bm st eat cons = Inr None
           \<longleftrightarrow> (drain_battery cons \<and> b - m_invariant_battery_drain bm < 0)
               \<or> (if drain_battery cons then b - m_invariant_battery_drain bm else b)
                    \<le> threshold_soc cons"
    by (simp add: basic_estimate_finish_set)
  with live show ?thesis by blast
qed

theorem battery_predicates_witness:
  "time example_state = Some 0 \<and> battery_soc example_state = Some (1 / 2)
   \<and> (drain_battery with_drain \<and> 1 / 2 - m_invariant_battery_drain draining_model < 0)
   \<and> fst (estimate_finish draining_model (seconds 5) (seconds 5) example_state 7 with_drain)
       = Inr None
   \<and> time \<lparr>time = Some 0, battery_soc = Some (1 / 8 :: real)\<rparr> = Some 0
   \<and> battery_soc \<lparr>time = Some 0, battery_soc = Some (1 / 8 :: real)\<rparr> = Some (1 / 8)
   \<and> (if drain_battery no_drain then 1 / 8 - m_invariant_battery_drain example_model
       else 1 / 8) \<le> threshold_soc no_drain
   \<and> fst (estimate_finish example_model (seconds 5) (seconds 5)
            \<lparr>time = Some 0, battery_soc = Some (1 / 8)\<rparr> 7 no_drain) = Inr None
   \<and> seconds 5 - m_confirmation_request_time example_model \<le>s m_timeout_duration example_model
   \<and> (fst (estimate_finish example_model (seconds 5) (seconds 5)
            \<lparr>time = Some 0, battery_soc = Some (1 / 8)\<rparr> 7 no_drain) = Inr None
        \<longleftrightarrow> (drain_battery no_drain \<and> 1 / 8 - m_invariant_battery_drain example_model < 0)
            \<or> (if drain_battery no_drain then 1 / 8 - m_invariant_battery_drain example_model
                else 1 / 8) \<le> threshold_soc no_drain)"
proof -
  have h1: "time example_state = Some 0" by (simp add: example_state_def)
  have h2: "battery_soc example_state = Some (1 / 2)" by (simp add: example_state_def)
  have n: "drain_battery with_drain \<and> 1 / 2 - m_invariant_battery_drain draining_model < 0"
    by (simp add: with_drain_def draining_model_simps)
  have k1: "time \<lparr>time = Some 0, battery_soc = Some (1 / 8 :: real)\<rparr> = Some 0" by simp
  have k2: "battery_soc \<lparr>time = Some 0, battery_soc = Some (1 / 8 :: real)\<rparr> = Some (1 / 8)"
    by simp
  have t: "(if drain_battery no_drain then 1 / 8 - m_invariant_battery_drain example_model
       else 1 / 8) \<le> threshold_soc no_drain"
    by (simp add: no_drain_def)
  have el: "seconds 5 - m_confirmation_request_time example_model
              \<le>s m_timeout_duration example_model"
    by (simp add: example_model_simps clock_examples)
  note r1 = battery_predicates [OF h1 h2, where cons = with_drain and m = draining_model
      and current_time = "seconds 5" and request_time = "seconds 5" and eat = 7]
  note r2 = battery_predicates [OF k1 k2, where cons = no_drain and m = example_model
      and current_time = "seconds 5" and request_time = "seconds 5" and eat = 7]
  from r1 n have c1:
    "fst (estimate_finish draining_model (seconds 5) (seconds 5) example_state 7 with_drain)
       = Inr None"
    by blast
  from r2 t have c2: "fst (estimate_finish example_model (seconds 5) (seconds 5)
            \<lparr>time = Some 0, battery_soc = Some (1 / 8)\<rparr> 7 no_drain) = Inr None"
    by blast
  from r2 el have c3: "(fst (estimate_finish example_model (seconds 5) (seconds 5)
            \<lparr>time = Some 0, battery_soc = Some (1 / 8)\<rparr> 7 no_drain) = Inr None
        \<longleftrightarrow> (drain_battery no_drain \<and> 1 / 8 - m_invariant_battery_drain example_model < 0)
            \<or> (if drain_battery no_drain then 1 / 8 - m_invariant_battery_drain example_model
                else 1 / 8) \<le> threshold_soc no_drain)"
    by blast
  from h1 h2 n k1 k2 t el c1 c2 c3 show ?thesis by blast
qed

text \<open>
  Claim C5 as stated fails: with \<^verbatim>\<open>drain_battery\<close> false, a charge of 1/2, an invariant drain
  of 5/8 and a threshold of 1/8, the charge less the drain is negative and the call succeeds.
\<close>

theorem negative_drain_unchecked_counterexample:
  "\<not> drain_battery no_drain
   \<and> battery_soc example_state = Some (1 / 2)
   \<and> 1 / 2 - m_invariant_battery_drain draining_model < 0
   \<and> fst (estimate_finish draining_model (seconds 5) (seconds 5) example_state 7 no_drain)
       = Inr (Some \<lparr>finish_state = \<lparr>time = Some (seconds 5), battery_soc = Some (1 / 2)\<rparr>,
                   wait_until = 7\<rparr>)"
  by (simp add: estimate_finish_def update_battery_drain_def below_threshold_def
      draining_model_simps example_state_def no_drain_def clock_examples)

subsection \<open>Finish time\<close>

text \<open>
  Claim C3. A successful call made while confirmation has not been received and the elapsed
  time does not exceed the timeout returns a state whose time is the input state's time plus
  one initial wait duration, with the given earliest arrival time as finish time. The sum is
  the 64-bit one the code computes: the new time less the old one is the wait in every case,
  and as signed counts the new time is the old one plus the wait whenever that sum is a
  64-bit signed count. A successful call made after confirmation returns a state with the
  input state's time, and that time as finish time. A successful call of the model without
  messaging behaves as the first case.
\<close>

theorem finish_time_of_success:
  "(\<not> m_confirmation_received m
      \<and> current_time - m_confirmation_request_time m \<le>s m_timeout_duration m
      \<and> fst (estimate_finish m current_time request_time st eat cons) = Inr (Some e) \<longrightarrow>
        (\<exists>t t'. time st = Some t \<and> time (finish_state e) = Some t'
           \<and> t' = t + m_initial_wait_duration m
           \<and> t' - t = m_initial_wait_duration m
           \<and> (- (2 ^ 63) \<le> sint t + sint (m_initial_wait_duration m)
                \<and> sint t + sint (m_initial_wait_duration m) < 2 ^ 63 \<longrightarrow>
              sint t' = sint t + sint (m_initial_wait_duration m)))
        \<and> wait_until e = eat)
   \<and> (m_confirmation_received m
      \<and> fst (estimate_finish m current_time request_time st eat cons) = Inr (Some e) \<longrightarrow>
        time (finish_state e) = time st \<and> time st = Some (wait_until e))
   \<and> (basic_estimate_finish bm st eat cons = Inr (Some e') \<longrightarrow>
        (\<exists>t t'. time st = Some t \<and> time (finish_state e') = Some t'
           \<and> t' = t + m_initial_wait_duration bm
           \<and> t' - t = m_initial_wait_duration bm
           \<and> (- (2 ^ 63) \<le> sint t + sint (m_initial_wait_duration bm)
                \<and> sint t + sint (m_initial_wait_duration bm) < 2 ^ 63 \<longrightarrow>
              sint t' = sint t + sint (m_initial_wait_duration bm)))
        \<and> wait_until e' = eat)"
proof (intro conjI impI)
  assume a: "\<not> m_confirmation_received m
      \<and> current_time - m_confirmation_request_time m \<le>s m_timeout_duration m
      \<and> fst (estimate_finish m current_time request_time st eat cons) = Inr (Some e)"
  then obtain t where t: "time st = Some t"
      "time (finish_state e) = Some (t + m_initial_wait_duration m)"
    by (auto simp add: estimate_finish_def update_battery_drain_def below_threshold_def Let_def
        split: option.splits sum.splits bool.splits if_splits)
  then show "\<exists>t t'. time st = Some t \<and> time (finish_state e) = Some t'
           \<and> t' = t + m_initial_wait_duration m
           \<and> t' - t = m_initial_wait_duration m
           \<and> (- (2 ^ 63) \<le> sint t + sint (m_initial_wait_duration m)
                \<and> sint t + sint (m_initial_wait_duration m) < 2 ^ 63 \<longrightarrow>
              sint t' = sint t + sint (m_initial_wait_duration m))"
    by (simp add: sint_add_in_range)
  from a show "wait_until e = eat"
    by (auto simp add: estimate_finish_def update_battery_drain_def below_threshold_def Let_def
        split: option.splits sum.splits bool.splits if_splits)
next
  assume a: "m_confirmation_received m
      \<and> fst (estimate_finish m current_time request_time st eat cons) = Inr (Some e)"
  then show "time (finish_state e) = time st"
    by (auto simp add: estimate_finish_def update_battery_drain_def below_threshold_def Let_def
        split: option.splits sum.splits bool.splits if_splits)
  from a show "time st = Some (wait_until e)"
    by (auto simp add: estimate_finish_def update_battery_drain_def below_threshold_def Let_def
        split: option.splits sum.splits bool.splits if_splits)
next
  assume a: "basic_estimate_finish bm st eat cons = Inr (Some e')"
  then obtain t where t: "time st = Some t"
      "time (finish_state e') = Some (t + m_initial_wait_duration bm)"
    by (auto simp add: basic_estimate_finish_def update_battery_drain_def below_threshold_def
        Let_def split: option.splits sum.splits bool.splits if_splits)
  then show "\<exists>t t'. time st = Some t \<and> time (finish_state e') = Some t'
           \<and> t' = t + m_initial_wait_duration bm
           \<and> t' - t = m_initial_wait_duration bm
           \<and> (- (2 ^ 63) \<le> sint t + sint (m_initial_wait_duration bm)
                \<and> sint t + sint (m_initial_wait_duration bm) < 2 ^ 63 \<longrightarrow>
              sint t' = sint t + sint (m_initial_wait_duration bm))"
    by (simp add: sint_add_in_range)
  from a show "wait_until e' = eat"
    by (auto simp add: basic_estimate_finish_def update_battery_drain_def below_threshold_def
        Let_def split: option.splits sum.splits bool.splits if_splits)
qed

theorem finish_time_of_success_witness:
  "(\<not> m_confirmation_received example_model
     \<and> seconds 5 - m_confirmation_request_time example_model \<le>s m_timeout_duration example_model
     \<and> fst (estimate_finish example_model (seconds 5) (seconds 5) example_state 7 no_drain) =
         Inr (Some \<lparr>finish_state = \<lparr>time = Some (seconds 5), battery_soc = Some (1 / 2)\<rparr>,
                    wait_until = 7\<rparr>))
   \<and> - (2 ^ 63) \<le> sint (0 :: 64 word) + sint (m_initial_wait_duration example_model)
   \<and> sint (0 :: 64 word) + sint (m_initial_wait_duration example_model) < 2 ^ 63
   \<and> (\<exists>t t'. time example_state = Some t
        \<and> time (finish_state \<lparr>finish_state = \<lparr>time = Some (seconds 5),
                                 battery_soc = Some (1 / 2 :: real)\<rparr>, wait_until = 7\<rparr>)
            = Some t'
        \<and> t' = t + m_initial_wait_duration example_model
        \<and> sint t' = sint t + sint (m_initial_wait_duration example_model))
   \<and> (m_confirmation_received confirmed_model
     \<and> fst (estimate_finish confirmed_model (seconds 5) (seconds 5) example_state 7 no_drain) =
         Inr (Some \<lparr>finish_state = example_state, wait_until = 0\<rparr>))
   \<and> time (finish_state \<lparr>finish_state = example_state, wait_until = 0\<rparr>) = time example_state
   \<and> time example_state = Some (wait_until \<lparr>finish_state = example_state, wait_until = 0\<rparr>)
   \<and> basic_estimate_finish basic_example_model example_state 7 no_drain =
         Inr (Some \<lparr>finish_state = \<lparr>time = Some (seconds 5), battery_soc = Some (1 / 2)\<rparr>,
                    wait_until = 7\<rparr>)
   \<and> (\<exists>t t'. time example_state = Some t
        \<and> time (finish_state \<lparr>finish_state = \<lparr>time = Some (seconds 5),
                                 battery_soc = Some (1 / 2 :: real)\<rparr>, wait_until = 7\<rparr>)
            = Some t'
        \<and> t' = t + m_initial_wait_duration basic_example_model
        \<and> sint t' = sint t + sint (m_initial_wait_duration basic_example_model))"
proof -
  have w: "\<not> m_confirmation_received example_model
     \<and> seconds 5 - m_confirmation_request_time example_model \<le>s m_timeout_duration example_model
     \<and> fst (estimate_finish example_model (seconds 5) (seconds 5) example_state 7 no_drain) =
         Inr (Some \<lparr>finish_state = \<lparr>time = Some (seconds 5), battery_soc = Some (1 / 2)\<rparr>,
                    wait_until = 7\<rparr>)"
    by (simp add: example_runs example_model_simps clock_examples)
  have c: "m_confirmation_received confirmed_model
     \<and> fst (estimate_finish confirmed_model (seconds 5) (seconds 5) example_state 7 no_drain) =
         Inr (Some \<lparr>finish_state = example_state, wait_until = 0\<rparr>)"
    by (simp add: example_runs confirmed_model_simps)
  have b: "basic_estimate_finish basic_example_model example_state 7 no_drain =
         Inr (Some \<lparr>finish_state = \<lparr>time = Some (seconds 5), battery_soc = Some (1 / 2)\<rparr>,
                    wait_until = 7\<rparr>)"
    by (simp add: example_runs)
  have z: "time example_state = Some 0" by (simp add: example_state_def)
  have g1: "- (2 ^ 63) \<le> sint (0 :: 64 word) + sint (m_initial_wait_duration example_model)"
    "sint (0 :: 64 word) + sint (m_initial_wait_duration example_model) < 2 ^ 63"
    by (simp_all add: example_model_simps seconds_sint)
  have g2:
    "- (2 ^ 63) \<le> sint (0 :: 64 word) + sint (m_initial_wait_duration basic_example_model)"
    "sint (0 :: 64 word) + sint (m_initial_wait_duration basic_example_model) < 2 ^ 63"
    by (simp_all add: basic_example_model_simps seconds_sint)
  note r1 = finish_time_of_success [where m = example_model and current_time = "seconds 5"
      and request_time = "seconds 5" and st = example_state and eat = 7 and cons = no_drain
      and e = "\<lparr>finish_state = \<lparr>time = Some (seconds 5), battery_soc = Some (1 / 2)\<rparr>,
               wait_until = 7\<rparr>"
      and bm = basic_example_model
      and e' = "\<lparr>finish_state = \<lparr>time = Some (seconds 5), battery_soc = Some (1 / 2)\<rparr>,
               wait_until = 7\<rparr>"]
  note r2 = finish_time_of_success [where m = confirmed_model and current_time = "seconds 5"
      and request_time = "seconds 5" and st = example_state and eat = 7 and cons = no_drain
      and e = "\<lparr>finish_state = example_state, wait_until = 0\<rparr>"]
  from r1 w z g1 have c1: "\<exists>t t'. time example_state = Some t
        \<and> time (finish_state \<lparr>finish_state = \<lparr>time = Some (seconds 5),
                                 battery_soc = Some (1 / 2 :: real)\<rparr>, wait_until = 7\<rparr>)
            = Some t'
        \<and> t' = t + m_initial_wait_duration example_model
        \<and> sint t' = sint t + sint (m_initial_wait_duration example_model)"
    by auto
  from r1 b z g2 have c2: "\<exists>t t'. time example_state = Some t
        \<and> time (finish_state \<lparr>finish_state = \<lparr>time = Some (seconds 5),
                                 battery_soc = Some (1 / 2 :: real)\<rparr>, wait_until = 7\<rparr>)
            = Some t'
        \<and> t' = t + m_initial_wait_duration basic_example_model
        \<and> sint t' = sint t + sint (m_initial_wait_duration basic_example_model)"
    by auto
  from r2 c have c3:
    "time (finish_state \<lparr>finish_state = example_state, wait_until = 0\<rparr>) = time example_state
     \<and> time example_state = Some (wait_until \<lparr>finish_state = example_state, wait_until = 0\<rparr>)"
    by blast
  from w c b g1 c1 c2 c3 show ?thesis by blast
qed

text \<open>
  At the edge of the 64-bit range the sum wraps around, in the model as in the compiled code:
  a state one second before the largest time, advanced by a wait of 5 s, gets a negative time.
\<close>

lemma finish_time_wraps_example:
  "fst (estimate_finish example_model (seconds 5) (seconds 5)
         \<lparr>time = Some (9223372036854775807 - seconds 1), battery_soc = Some (1 / 2)\<rparr> 7 no_drain)
     = Inr (Some \<lparr>finish_state =
                   \<lparr>time = Some (9223372036854775807 - seconds 1 + seconds 5),
                    battery_soc = Some (1 / 2)\<rparr>,
                 wait_until = 7\<rparr>)
   \<and> sint (9223372036854775807 - seconds 1 + seconds 5 :: 64 word) = - 9223372032854775809"
  by (simp add: estimate_finish_def update_battery_drain_def below_threshold_def
      example_model_simps no_drain_def clock_examples, simp add: seconds_def)

subsection \<open>The confirmation latch\<close>

lemma apply_call_keeps_uuid: "m_task_uuid (apply_call m c) = m_task_uuid m"
  by (cases c) (simp_all add: estimate_finish_keeps on_confirmation_received_def)

lemma apply_call_latched:
  "m_confirmation_received m \<Longrightarrow> m_confirmation_received (apply_call m c)"
  by (cases c) (simp_all add: estimate_finish_keeps on_confirmation_received_def)

lemma foldl_apply_call_keeps_uuid: "m_task_uuid (foldl apply_call m cs) = m_task_uuid m"
  by (induction cs arbitrary: m) (simp_all add: apply_call_keeps_uuid)

lemma foldl_apply_call_latched:
  "m_confirmation_received m \<Longrightarrow> m_confirmation_received (foldl apply_call m cs)"
  by (induction cs arbitrary: m) (simp_all add: apply_call_latched)

lemma apply_call_latches_only_on_match:
  assumes "\<not> m_confirmation_received m" and "m_confirmation_received (apply_call m c)"
  shows "c = Confirmation (m_task_uuid m)"
  using assms
  by (cases c) (auto simp add: estimate_finish_keeps on_confirmation_received_def
      split: if_splits)

text \<open>
  Claim C8. The flag \<^verbatim>\<open>_confirmation_received\<close> is a one-way latch. After a message it is set
  exactly when it was set before or the message equals the model's UUID; a message with
  another token leaves the whole model unchanged. A call or message that sets a flag that was
  unset is a confirmation carrying the model's UUID. Once set, the flag stays set through any
  sequence of calls and messages, and the UUID never changes. A message delivered to all live
  models leaves every model with a different UUID unchanged and latches those with that UUID.
\<close>

theorem confirmation_latch:
  "m_confirmation_received (on_confirmation_received m msg)
     = (m_confirmation_received m \<or> msg = m_task_uuid m)
   \<and> (msg \<noteq> m_task_uuid m \<longrightarrow> on_confirmation_received m msg = m)
   \<and> (\<not> m_confirmation_received m \<and> m_confirmation_received (apply_call m c) \<longrightarrow>
        c = Confirmation (m_task_uuid m))
   \<and> (m_confirmation_received m \<longrightarrow> m_confirmation_received (apply_calls m cs))
   \<and> m_task_uuid (apply_calls m cs) = m_task_uuid m
   \<and> length (deliver msg ms) = length ms
   \<and> (\<forall>i < length ms. m_task_uuid (ms ! i) \<noteq> msg \<longrightarrow> deliver msg ms ! i = ms ! i)
   \<and> (\<forall>i < length ms. m_task_uuid (ms ! i) = msg \<longrightarrow>
        m_confirmation_received (deliver msg ms ! i))"
proof -
  have a: "m_confirmation_received (on_confirmation_received m msg)
     = (m_confirmation_received m \<or> msg = m_task_uuid m)"
    by (simp add: on_confirmation_received_def)
  have b: "msg \<noteq> m_task_uuid m \<longrightarrow> on_confirmation_received m msg = m"
    by (simp add: on_confirmation_received_def)
  have c: "\<not> m_confirmation_received m \<and> m_confirmation_received (apply_call m c) \<longrightarrow>
        c = Confirmation (m_task_uuid m)"
    using apply_call_latches_only_on_match by blast
  have d: "m_confirmation_received m \<longrightarrow> m_confirmation_received (apply_calls m cs)"
    by (simp add: apply_calls_def foldl_apply_call_latched)
  have e: "m_task_uuid (apply_calls m cs) = m_task_uuid m"
    by (simp add: apply_calls_def foldl_apply_call_keeps_uuid)
  have f: "length (deliver msg ms) = length ms"
    by (simp add: deliver_def)
  have g: "\<forall>i < length ms. m_task_uuid (ms ! i) \<noteq> msg \<longrightarrow> deliver msg ms ! i = ms ! i"
    by (auto simp add: deliver_def on_confirmation_received_def)
  have h: "\<forall>i < length ms. m_task_uuid (ms ! i) = msg \<longrightarrow>
        m_confirmation_received (deliver msg ms ! i)"
    by (simp add: deliver_def on_confirmation_received_def)
  from a b c d e f g h show ?thesis by blast
qed

theorem confirmation_latch_witness:
  "''task-b'' \<noteq> m_task_uuid example_model
   \<and> on_confirmation_received example_model ''task-b'' = example_model
   \<and> \<not> m_confirmation_received example_model
   \<and> m_confirmation_received (apply_call example_model (Confirmation ''task-a''))
   \<and> Confirmation ''task-a'' = (Confirmation (m_task_uuid example_model) :: real call)
   \<and> m_confirmation_received confirmed_model
   \<and> m_confirmation_received
       (apply_calls confirmed_model
         [Confirmation ''task-b'',
          Estimate_finish (seconds 30) (seconds 30) example_state 7 no_drain,
          Invariant_duration, Invariant_finish_state, Confirmation ''task-a''])
   \<and> (1::nat) < length [example_model, other_model]
   \<and> m_task_uuid ([example_model, other_model] ! 1) \<noteq> ''task-a''
   \<and> deliver ''task-a'' [example_model, other_model] ! 1 = [example_model, other_model] ! 1
   \<and> (0::nat) < length [example_model, other_model]
   \<and> m_task_uuid ([example_model, other_model] ! 0) = ''task-a''
   \<and> m_confirmation_received (deliver ''task-a'' [example_model, other_model] ! 0)"
proof -
  have h1: "''task-b'' \<noteq> m_task_uuid example_model"
    by (simp add: example_model_simps)
  have h2: "\<not> m_confirmation_received example_model"
    by (simp add: example_model_simps)
  have h3: "m_confirmation_received (apply_call example_model (Confirmation ''task-a''))"
    by (simp add: on_confirmation_received_def example_model_simps)
  have h4: "m_confirmation_received confirmed_model"
    by (simp add: confirmed_model_simps)
  have h5: "(1::nat) < length [example_model, other_model]" by simp
  have h6: "m_task_uuid ([example_model, other_model] ! 1) \<noteq> ''task-a''"
    by (simp add: other_model_def Model_simps)
  have h7: "(0::nat) < length [example_model, other_model]" by simp
  have h8: "m_task_uuid ([example_model, other_model] ! 0) = ''task-a''"
    by (simp add: example_model_simps)
  note r1 = confirmation_latch [where m = example_model and msg = "''task-b''"
      and c = "Confirmation ''task-a''"]
  note r2 = confirmation_latch [where m = confirmed_model and cs =
        "[Confirmation ''task-b'',
          Estimate_finish (seconds 30) (seconds 30) example_state 7 no_drain,
          Invariant_duration, Invariant_finish_state, Confirmation ''task-a'']"]
  note r3 = confirmation_latch [where ms = "[example_model, other_model]"
      and msg = "''task-a''"]
  from r1 h1 have c1: "on_confirmation_received example_model ''task-b'' = example_model"
    by blast
  from r1 h2 h3 have c2:
    "Confirmation ''task-a'' = (Confirmation (m_task_uuid example_model) :: real call)"
    by blast
  from r2 h4 have c3: "m_confirmation_received
       (apply_calls confirmed_model
         [Confirmation ''task-b'',
          Estimate_finish (seconds 30) (seconds 30) example_state 7 no_drain,
          Invariant_duration, Invariant_finish_state, Confirmation ''task-a''])"
    by blast
  from r3 h5 h6 have c4:
    "deliver ''task-a'' [example_model, other_model] ! 1 = [example_model, other_model] ! 1"
    by blast
  from r3 h7 h8 have c5:
    "m_confirmation_received (deliver ''task-a'' [example_model, other_model] ! 0)"
    by blast
  from h1 h2 h3 h4 h5 h6 h7 h8 c1 c2 c3 c4 c5 show ?thesis by simp
qed

subsection \<open>Unset state fields\<close>

text \<open>
  Claim C10 (as amended). The model without messaging reads the time and the charge on every
  call: it throws \<^verbatim>\<open>std::bad_optional_access\<close> exactly when one of them is unset. The model
  with messaging does the same on a call made while waiting that does not take the timeout
  exit. On the timeout exit it reads neither field and returns \<^verbatim>\<open>std::nullopt\<close>. After
  confirmation it reads the charge on every call and the time only once the battery checks
  have passed: it throws exactly when the charge is unset, or the time is unset and the
  battery checks pass.
\<close>

theorem unset_fields:
  "(basic_estimate_finish bm st eat cons = Inl bad_optional_access
      \<longleftrightarrow> time st = None \<or> battery_soc st = None)
   \<and> (\<not> m_confirmation_received m
        \<and> current_time - m_confirmation_request_time m \<le>s m_timeout_duration m \<longrightarrow>
       (fst (estimate_finish m current_time request_time st eat cons) = Inl bad_optional_access
          \<longleftrightarrow> time st = None \<or> battery_soc st = None))
   \<and> (\<not> m_confirmation_received m
        \<and> m_timeout_duration m <s current_time - m_confirmation_request_time m \<longrightarrow>
       fst (estimate_finish m current_time request_time st eat cons) = Inr None)
   \<and> (m_confirmation_received m \<longrightarrow>
       (fst (estimate_finish m current_time request_time st eat cons) = Inl bad_optional_access
          \<longleftrightarrow> (case battery_soc st of
                 None \<Rightarrow> True
               | Some b \<Rightarrow>
                   time st = None \<and>
                   (if drain_battery cons
                    then \<not> b - m_invariant_battery_drain m < 0 \<and>
                         \<not> b - m_invariant_battery_drain m \<le> threshold_soc cons
                    else \<not> b \<le> threshold_soc cons))))"
  using basic_estimate_finish_raises_iff [of bm st eat cons]
    estimate_finish_waiting_raises_iff [of m current_time request_time st eat cons]
    estimate_finish_confirmed_raises_iff [of m current_time request_time st eat cons]
    estimate_finish_timeout [of m current_time request_time st eat cons]
  by (simp add: signed.not_less)

theorem unset_fields_witness:
  "\<not> m_confirmation_received example_model
   \<and> seconds 5 - m_confirmation_request_time example_model \<le>s m_timeout_duration example_model
   \<and> fst (estimate_finish example_model (seconds 5) (seconds 5)
            \<lparr>time = None, battery_soc = Some (1 / 2)\<rparr> 7 no_drain) = Inl bad_optional_access
   \<and> m_timeout_duration example_model
        <s seconds 21 - m_confirmation_request_time example_model
   \<and> fst (estimate_finish example_model (seconds 21) (seconds 21)
            \<lparr>time = None, battery_soc = Some (1 / 2)\<rparr> 7 no_drain) = Inr None
   \<and> m_confirmation_received confirmed_model
   \<and> fst (estimate_finish confirmed_model (seconds 5) (seconds 5)
            \<lparr>time = Some 0, battery_soc = None\<rparr> 7 no_drain) = Inl bad_optional_access
   \<and> basic_estimate_finish basic_example_model
            \<lparr>time = Some 0, battery_soc = None\<rparr> 7 no_drain = Inl bad_optional_access"
proof -
  have h1: "\<not> m_confirmation_received example_model"
    by (simp add: example_model_simps)
  have h2: "seconds 5 - m_confirmation_request_time example_model
              \<le>s m_timeout_duration example_model"
    by (simp add: example_model_simps clock_examples)
  have h3: "m_timeout_duration example_model
              <s seconds 21 - m_confirmation_request_time example_model"
    by (simp add: example_model_simps clock_examples)
  have h4: "m_confirmation_received confirmed_model"
    by (simp add: confirmed_model_simps)
  note r1 = unset_fields [where m = example_model and current_time = "seconds 5"
      and request_time = "seconds 5" and st = "\<lparr>time = None, battery_soc = Some (1 / 2)\<rparr>"
      and eat = 7 and cons = no_drain]
  note r2 = unset_fields [where m = example_model and current_time = "seconds 21"
      and request_time = "seconds 21" and st = "\<lparr>time = None, battery_soc = Some (1 / 2)\<rparr>"
      and eat = 7 and cons = no_drain]
  note r3 = unset_fields [where m = confirmed_model and current_time = "seconds 5"
      and request_time = "seconds 5" and st = "\<lparr>time = Some 0, battery_soc = None\<rparr>"
      and eat = 7 and cons = no_drain and bm = basic_example_model]
  from r1 h1 h2 have c1: "fst (estimate_finish example_model (seconds 5) (seconds 5)
            \<lparr>time = None, battery_soc = Some (1 / 2)\<rparr> 7 no_drain) = Inl bad_optional_access"
    by simp
  from r2 h1 h3 have c2: "fst (estimate_finish example_model (seconds 21) (seconds 21)
            \<lparr>time = None, battery_soc = Some (1 / 2)\<rparr> 7 no_drain) = Inr None"
    by blast
  from r3 h4 have c3: "fst (estimate_finish confirmed_model (seconds 5) (seconds 5)
            \<lparr>time = Some 0, battery_soc = None\<rparr> 7 no_drain) = Inl bad_optional_access"
    by simp
  from r3 have c4: "basic_estimate_finish basic_example_model
            \<lparr>time = Some 0, battery_soc = None\<rparr> 7 no_drain = Inl bad_optional_access"
    by simp
  from h1 h2 h3 h4 c1 c2 c3 c4 show ?thesis by simp
qed

text \<open>
  Claim C10 as stated fails: a call rejected for timeout returns \<^verbatim>\<open>std::nullopt\<close> on a state
  with neither field set, and a call after confirmation returns \<^verbatim>\<open>std::nullopt\<close> on a state
  with no time whose charge is at or below the threshold.
\<close>

theorem unset_fields_counterexample:
  "fst (estimate_finish example_model (seconds 21) (seconds 21)
          \<lparr>time = None, battery_soc = None\<rparr> 7 no_drain) = Inr None
   \<and> fst (estimate_finish confirmed_model (seconds 5) (seconds 5)
          \<lparr>time = None, battery_soc = Some (1 / 16)\<rparr> 7 no_drain) = Inr None"
  by (simp add: estimate_finish_def update_battery_drain_def below_threshold_def
      example_model_simps confirmed_model_simps no_drain_def clock_examples)

end
